theory Spec2Isabelle
  imports Main "HOL-Library.AList"
begin

section \<open>The petpet index builder\<close>

text \<open>
  A shallow embedding of the index builder under \<open>petpet/tools/index-builder\<close>:
  \<open>utils\<close> (\<open>md5\<close>, \<open>filesMd5\<close>), \<open>fonts-info\<close> (\<open>getFontInfo\<close>),
  \<open>template-builder\<close> (\<open>buildTemplateIndex\<close>), \<open>old-template-builder\<close>
  (\<open>buildOldTemplateIndex\<close>) and \<open>main\<close>.

  A string is the list of its code units, and a \<open>char\<close> is a code unit below 256.
  Exceptions and rejected promises are values of the type \<open>error\<close>. What the code
  takes from the platform and from libraries is a parameter, collected in the record
  \<open>env\<close>: the MD5 digest, fontkit, the JSON parsers, \<open>String.prototype.toLowerCase\<close>,
  \<open>path.join\<close>, the evaluation of a template script, and the times at which the
  asynchronous operations settle.
\<close>

subsection \<open>Regular expressions\<close>

text \<open>
  The three patterns of the source use literal characters, \<open>.\<close>, \<open>\d\<close>, \<open>+\<close>,
  grouping and alternation. \<open>String.prototype.match\<close> with a pattern that has no
  anchor and no flag succeeds when some substring matches; \<open>search\<close> is that test.
  A \<open>.\<close> matches every code unit but a line terminator; below 256 these are the
  line feed and the carriage return.
\<close>

datatype rx =
    Never
  | Empty
  | Lit char
  | Dot
  | Digit
  | AnyByte
  | Cat rx rx
  | Alt rx rx
  | Star rx

definition lineTerminator :: "char \<Rightarrow> bool" where
  "lineTerminator c = (c = CHR 0x0A \<or> c = CHR 0x0D)"

definition isDigit :: "char \<Rightarrow> bool" where
  "isDigit c = (let n = (of_char c :: nat) in 48 \<le> n \<and> n \<le> 57)"

primrec nullable :: "rx \<Rightarrow> bool" where
  "nullable Never = False"
| "nullable Empty = True"
| "nullable (Lit c) = False"
| "nullable Dot = False"
| "nullable Digit = False"
| "nullable AnyByte = False"
| "nullable (Cat r s) = (nullable r \<and> nullable s)"
| "nullable (Alt r s) = (nullable r \<or> nullable s)"
| "nullable (Star r) = True"

primrec after :: "char \<Rightarrow> rx \<Rightarrow> rx" where
  "after c Never = Never"
| "after c Empty = Never"
| "after c (Lit d) = (if c = d then Empty else Never)"
| "after c Dot = (if lineTerminator c then Never else Empty)"
| "after c Digit = (if isDigit c then Empty else Never)"
| "after c AnyByte = Empty"
| "after c (Cat r s) =
     (if nullable r then Alt (Cat (after c r) s) (after c s) else Cat (after c r) s)"
| "after c (Alt r s) = Alt (after c r) (after c s)"
| "after c (Star r) = Cat (after c r) (Star r)"

primrec whole :: "rx \<Rightarrow> string \<Rightarrow> bool" where
  "whole r [] = nullable r"
| "whole r (c # cs) = whole (after c r) cs"

definition search :: "rx \<Rightarrow> string \<Rightarrow> bool" where
  "search r s = whole (Cat (Star AnyByte) (Cat r (Star AnyByte))) s"

definition Plus :: "rx \<Rightarrow> rx" where
  "Plus r = Cat r (Star r)"

primrec Word :: "string \<Rightarrow> rx" where
  "Word [] = Empty"
| "Word (c # cs) = Cat (Lit c) (Word cs)"

text \<open>\<open>/.+\.(woff|eot|woff2|ttf)/\<close>, in both builders.\<close>

definition FONT_PATTERN :: rx where
  "FONT_PATTERN =
     Cat (Plus Dot) (Cat (Lit CHR ''.'')
       (Alt (Word ''woff'') (Alt (Word ''eot'') (Alt (Word ''woff2'') (Word ''ttf'')))))"

text \<open>\<open>/\d\.png/\<close>, in the legacy builder.\<close>

definition FRAME_PATTERN :: rx where
  "FRAME_PATTERN = Cat Digit (Cat (Lit CHR ''.'') (Word ''png''))"

definition isFontFile :: "string \<Rightarrow> bool" where
  "isFontFile font = search FONT_PATTERN font"

definition isFrameFile :: "string \<Rightarrow> bool" where
  "isFrameFile file = search FRAME_PATTERN file"

subsection \<open>JavaScript values\<close>

text \<open>
  The values that a parsed JSON file or the callback of a template script can hand to
  the builder. \<open>JNum\<close> holds the integral numbers, \<open>JNaN\<close> the one falsy number that is
  not zero.
\<close>

datatype jsval =
    JUndefined
  | JNull
  | JBool bool
  | JNum int
  | JNaN
  | JStr string
  | JArr "jsval list"
  | JObj "(string \<times> jsval) list"

datatype error =
    IOError
  | TypeError
  | SyntaxError
  | ScriptError
  | FontError

text \<open>The conversion that \<open>!v\<close>, \<open>a && b\<close> and \<open>filter(Boolean)\<close> apply.\<close>

fun truthy :: "jsval \<Rightarrow> bool" where
  "truthy JUndefined = False"
| "truthy JNull = False"
| "truthy (JBool b) = b"
| "truthy (JNum n) = (n \<noteq> 0)"
| "truthy JNaN = False"
| "truthy (JStr s) = (s \<noteq> [])"
| "truthy (JArr xs) = True"
| "truthy (JObj kvs) = True"

text \<open>
  Reading a property \<open>v.k\<close>, for the names the builders read (\<open>metadata\<close>,
  \<open>elements\<close>, \<open>text\<close>, \<open>type\<close>, \<open>font\<close>, \<open>alias\<close>, \<open>inRandomList\<close>, \<open>hidden\<close>,
  \<open>path\<close>, \<open>fontsPath\<close>):
  none of them is a property of a string, a number, a boolean or an array, and reading
  any property of \<open>null\<close> or \<open>undefined\<close> throws.
\<close>

fun getProp :: "jsval \<Rightarrow> string \<Rightarrow> error + jsval" where
  "getProp JUndefined k = Inl TypeError"
| "getProp JNull k = Inl TypeError"
| "getProp (JObj kvs) k = (case map_of kvs k of None \<Rightarrow> Inr JUndefined | Some v \<Rightarrow> Inr v)"
| "getProp v k = Inr JUndefined"

text \<open>
  A plain object \<open>{}\<close> used as a dictionary, as the list of its own properties in
  insertion order (the order of \<open>JSON.stringify\<close> for names that are no array
  indices). The assignment \<open>obj[k] = v\<close> adds or replaces the property \<open>k\<close>,
  except for the key \<open>__proto__\<close>: that assignment runs the setter inherited from
  \<open>Object.prototype\<close>, which creates no own property (it replaces the prototype when
  \<open>v\<close> is an object and does nothing otherwise).
\<close>

definition PROTO :: string where
  "PROTO = ''__proto__''"

definition objSet :: "string \<Rightarrow> 'v \<Rightarrow> (string \<times> 'v) list \<Rightarrow> (string \<times> 'v) list" where
  "objSet k v obj = (if k = PROTO then obj else AList.update k v obj)"

text \<open>\<open>[...new Set(xs)]\<close>: the first occurrence of every element, in order.\<close>

fun uniq :: "'a list \<Rightarrow> 'a list" where
  "uniq [] = []"
| "uniq (x # xs) = x # uniq (filter (\<lambda>y. y \<noteq> x) xs)"

subsection \<open>The file system\<close>

text \<open>
  A regular file has the size that \<open>stat\<close> reports and its bytes, \<open>None\<close> when
  reading it fails. A directory is the list of its entries as \<open>readdir\<close> returns them.
\<close>

datatype node =
    File nat "string option"
  | Dir "(string \<times> node) list"

definition readdir :: "node option \<Rightarrow> error + (string \<times> node) list" where
  "readdir n = (case n of Some (Dir es) \<Rightarrow> Inr es | _ \<Rightarrow> Inl IOError)"

definition existsIn :: "(string \<times> node) list \<Rightarrow> string \<Rightarrow> bool" where
  "existsIn es name = (map_of es name \<noteq> None)"

definition readFile :: "node option \<Rightarrow> error + string" where
  "readFile n = (case n of Some (File sz (Some bytes)) \<Rightarrow> Inr bytes | _ \<Rightarrow> Inl IOError)"

subsection \<open>Collaborators\<close>

record font =
  familyName :: "string option"
  fullName :: "string option"
  postscriptName :: "string option"
  subfamilyName :: "string option"

text \<open>
  A template script is run by a direct \<open>eval\<close> inside the callback of
  \<open>buildTemplateIndex\<close>, so it reads and writes the variables of that scope. Those
  that the builder reads after the script are the callback's \<open>metadata\<close> and \<open>id\<close>
  and the builder's \<open>fontNameMap\<close>, \<open>resultFontObj\<close> and \<open>config\<close>; the script can
  leave any value in them.
\<close>

record scope =
  varMetadata :: jsval
  varId :: jsval
  fontNameMap :: "string \<rightharpoonup> jsval"
  resultFontObj :: "(string \<times> jsval) list"
  config :: jsval

text \<open>
  What running a script does: it throws or it returns, and either way it leaves a
  scope behind. \<open>Returns vs sc\<close> also lists what the callbacks of its calls of
  \<open>register\<close> returned, in order; \<open>register\<close> itself assigns that value to
  \<open>metadata\<close>.
\<close>

datatype script_run = Throws scope | Returns "jsval list" scope

text \<open>
  \<open>fontInfoTime\<close> is when \<open>getFontInfo\<close> settles for a font file, \<open>fontDoneTime\<close>
  when the callback of that font ends, and \<open>hashTime\<close> when \<open>filesMd5\<close> settles for
  an entry of the templates directory.
\<close>

record env =
  digest :: "string \<Rightarrow> string"
  fontkitOpen :: "string \<Rightarrow> font option"
  requireJson :: "string \<Rightarrow> jsval option"
  jsonParse :: "string \<Rightarrow> jsval option"
  evalScript :: "string \<Rightarrow> scope \<Rightarrow> script_run"
  toLowerCase :: "string \<Rightarrow> string"
  pathJoin :: "string \<Rightarrow> string \<Rightarrow> string"
  fontInfoTime :: "string \<Rightarrow> nat"
  fontDoneTime :: "string \<Rightarrow> nat"
  hashTime :: "string \<Rightarrow> nat"

subsection \<open>utils: md5 and filesMd5\<close>

definition md5 :: "env \<Rightarrow> node option \<Rightarrow> error + string" where
  "md5 E n = (case readFile n of Inl e \<Rightarrow> Inl e | Inr bytes \<Rightarrow> Inr (digest E bytes))"

text \<open>
  The result \<open>{resource, size}\<close>; the field \<open>size\<close> is \<open>size'\<close> here. The
  callbacks of \<open>Promise.all\<close> are taken in the order of the listing: they set keys
  that differ, they add to \<open>size\<close>, and what makes one fail is an I/O error, so the
  order in which they end shows in the order of the keys only. \<open>readdir\<close> fails on
  what is no directory.
\<close>

record dirhash =
  resource :: "(string \<times> string) list"
  size' :: nat

fun filesMd5 :: "env \<Rightarrow> node \<Rightarrow> error + dirhash"
  and filesMd5_each :: "env \<Rightarrow> (string \<times> node) list \<Rightarrow> dirhash \<Rightarrow> error + dirhash"
where
  "filesMd5 E (File sz c) = Inl IOError"
| "filesMd5 E (Dir files) = filesMd5_each E files \<lparr>resource = [], size' = 0\<rparr>"
| "filesMd5_each E [] result = Inr result"
| "filesMd5_each E ((file, Dir sub) # rest) result =
     (case filesMd5 E (Dir sub) of
        Inl e \<Rightarrow> Inl e
      | Inr childHashes \<Rightarrow>
          filesMd5_each E rest
            \<lparr>resource = fold (\<lambda>(name, hash). objSet (file @ ''/'' @ name) hash)
                          (resource childHashes) (resource result),
             size' = size' result + size' childHashes\<rparr>)"
| "filesMd5_each E ((file, File sz c) # rest) result =
     (case md5 E (Some (File sz c)) of
        Inl e \<Rightarrow> Inl e
      | Inr hash \<Rightarrow>
          filesMd5_each E rest
            \<lparr>resource = objSet file hash (resource result), size' = size' result + sz\<rparr>)"

subsection \<open>fonts-info: getFontInfo\<close>

text \<open>
  \<open>fontkit.open\<close> rejects a file that is no font; a name that the font lacks is
  \<open>None\<close>, and calling \<open>toLowerCase\<close> on it throws.
\<close>

fun lowerAll :: "env \<Rightarrow> string option list \<Rightarrow> error + string list" where
  "lowerAll E [] = Inr []"
| "lowerAll E (None # ns) = Inl TypeError"
| "lowerAll E (Some n # ns) =
     (case lowerAll E ns of Inl e \<Rightarrow> Inl e | Inr ls \<Rightarrow> Inr (toLowerCase E n # ls))"

definition fontNames :: "env \<Rightarrow> font \<Rightarrow> error + string list" where
  "fontNames E f =
     (case lowerAll E [familyName f, fullName f, postscriptName f, subfamilyName f] of
        Inl e \<Rightarrow> Inl e
      | Inr ls \<Rightarrow> Inr (uniq ls))"

definition getFontInfo :: "env \<Rightarrow> string \<Rightarrow> error + string list" where
  "getFontInfo E bytes =
     (case fontkitOpen E bytes of None \<Rightarrow> Inl FontError | Some f \<Rightarrow> fontNames E f)"

subsection \<open>Configuration and the file tree\<close>

record config =
  basePath :: string
  path :: string
  fontsPath :: string
  oldTargetVersion :: int
  targetVersion :: string

text \<open>The object \<open>config\<close> as a value.\<close>

definition configObject :: "config \<Rightarrow> jsval" where
  "configObject cfg =
     JObj [(''basePath'', JStr (basePath cfg)), (''path'', JStr (path cfg)),
           (''fontsPath'', JStr (fontsPath cfg)),
           (''oldTargetVersion'', JNum (oldTargetVersion cfg)),
           (''targetVersion'', JStr (targetVersion cfg))]"

text \<open>
  What the builders see of the machine: the working directory, the nodes found at the
  templates path and at the fonts path (\<open>None\<close> when there is nothing there), and the
  node that \<open>path.join(templatePath, s)\<close> leads to for a string \<open>s\<close> that is not the
  name of an entry of the templates directory.
\<close>

record world =
  rootDir :: string
  templatesNode :: "node option"
  fontsNode :: "node option"
  elsewhere :: "string \<Rightarrow> node option"

definition templateAt :: "world \<Rightarrow> (string \<times> node) list \<Rightarrow> string \<Rightarrow> node option" where
  "templateAt W entries s =
     (case map_of entries s of Some n \<Rightarrow> Some n | None \<Rightarrow> elsewhere W s)"

subsection \<open>Promises\<close>

text \<open>
  A promise of a batch, as it ends: fulfilled, rejected before the callback first
  awaits, or rejected when an awaited operation settles, at the time given.
  \<open>Promise.all\<close> rejects with the rejection that comes first: the synchronous ones in
  the order of the batch, then the others in the order of their times, and in the order
  of the batch where the times are equal.
\<close>

datatype 'a promise = Fulfilled 'a | RejectedNow error | RejectedAt nat error

fun rejections :: "'a promise list \<Rightarrow> (nat \<times> error) list" where
  "rejections [] = []"
| "rejections (Fulfilled v # ps) = rejections ps"
| "rejections (RejectedNow e # ps) = (0, e) # rejections ps"
| "rejections (RejectedAt t e # ps) = (Suc t, e) # rejections ps"

fun fulfilled :: "'a promise list \<Rightarrow> 'a list" where
  "fulfilled [] = []"
| "fulfilled (Fulfilled v # ps) = v # fulfilled ps"
| "fulfilled (RejectedNow e # ps) = fulfilled ps"
| "fulfilled (RejectedAt t e # ps) = fulfilled ps"

fun earliest :: "(nat \<times> error) list \<Rightarrow> (nat \<times> error) option" where
  "earliest [] = None"
| "earliest (r # rs) =
     (case earliest rs of
        None \<Rightarrow> Some r
      | Some r' \<Rightarrow> if fst r' < fst r then Some r' else Some r)"

definition promiseAll :: "'a promise list \<Rightarrow> error + 'a list" where
  "promiseAll ps =
     (case earliest (rejections ps) of
        Some (t, e) \<Rightarrow> Inl e
      | None \<Rightarrow> Inr (fulfilled ps))"

definition settled :: "'a promise \<Rightarrow> error + 'a" where
  "settled p = (case p of Fulfilled v \<Rightarrow> Inr v | RejectedNow e \<Rightarrow> Inl e | RejectedAt t e \<Rightarrow> Inl e)"

subsection \<open>template-builder\<close>

definition SCRIPT_NAME :: string where "SCRIPT_NAME = ''main.js''"
definition TEMPLATE_NAME :: string where "TEMPLATE_NAME = ''template.json''"
definition OLD_TEMPLATE_NAME :: string where "OLD_TEMPLATE_NAME = ''data.json''"

text \<open>
  An entry of \<open>templates\<close>: \<open>resource\<close> and \<open>size\<close> spread from \<open>filesMd5\<close>,
  with \<open>type\<close>, \<open>metadata\<close> and, when it was attached, \<open>dependentFonts\<close>.
\<close>

record templateEntry = dirhash +
  type' :: string
  metadata :: jsval
  dependentFonts :: "jsval list option"

record manifest =
  templatesPath :: jsval
  templates :: "(string \<times> templateEntry) list"
  manifestFontsPath :: jsval
  fonts :: "(string \<times> jsval) list"

fun filterE :: "('a \<Rightarrow> error + bool) \<Rightarrow> 'a list \<Rightarrow> error + 'a list" where
  "filterE p [] = Inr []"
| "filterE p (x # xs) =
     (case p x of
        Inl e \<Rightarrow> Inl e
      | Inr b \<Rightarrow> (case filterE p xs of
                   Inl e \<Rightarrow> Inl e
                 | Inr ys \<Rightarrow> Inr (if b then x # ys else ys)))"

fun mapE :: "('a \<Rightarrow> error + 'b) \<Rightarrow> 'a list \<Rightarrow> error + 'b list" where
  "mapE f [] = Inr []"
| "mapE f (x # xs) =
     (case f x of
        Inl e \<Rightarrow> Inl e
      | Inr y \<Rightarrow> (case mapE f xs of Inl e \<Rightarrow> Inl e | Inr ys \<Rightarrow> Inr (y # ys)))"

text \<open>\<open>e => e.type === 'text' && e.font\<close>\<close>

definition isTextWithFont :: "jsval \<Rightarrow> error + bool" where
  "isTextWithFont e =
     (case getProp e ''type'' of
        Inl err \<Rightarrow> Inl err
      | Inr t \<Rightarrow>
          if t = JStr ''text''
          then (case getProp e ''font'' of Inl err \<Rightarrow> Inl err | Inr f \<Rightarrow> Inr (truthy f))
          else Inr False)"

text \<open>\<open>t => t.font\<close>\<close>

definition hasFont :: "jsval \<Rightarrow> error + bool" where
  "hasFont t = (case getProp t ''font'' of Inl err \<Rightarrow> Inl err | Inr f \<Rightarrow> Inr (truthy f))"

text \<open>
  \<open>e => fontMap.get(e.font.toLowerCase())\<close>: only a string has \<open>toLowerCase\<close>, and
  \<open>Map.prototype.get\<close> returns \<open>undefined\<close> for a key that is not in the map.
\<close>

definition lookupFont :: "env \<Rightarrow> (string \<rightharpoonup> jsval) \<Rightarrow> jsval \<Rightarrow> error + jsval" where
  "lookupFont E fontMap e =
     (case getProp e ''font'' of
        Inl err \<Rightarrow> Inl err
      | Inr (JStr s) \<Rightarrow>
          Inr (case fontMap (toLowerCase E s) of None \<Rightarrow> JUndefined | Some file \<Rightarrow> file)
      | Inr _ \<Rightarrow> Inl TypeError)"

text \<open>
  \<open>[...new Set(xs?.filter(keep)?.map(lookup))]\<close>: \<open>?.\<close> yields \<open>undefined\<close> for a
  missing or \<open>null\<close> list, and \<open>new Set(undefined)\<close> is empty; a value that is no
  array has no \<open>filter\<close>.
\<close>

definition searchFonts ::
  "env \<Rightarrow> (jsval \<Rightarrow> error + bool) \<Rightarrow> (string \<rightharpoonup> jsval) \<Rightarrow> jsval \<Rightarrow> error + jsval list" where
  "searchFonts E keep fontMap xs =
     (case xs of
        JUndefined \<Rightarrow> Inr []
      | JNull \<Rightarrow> Inr []
      | JArr es \<Rightarrow>
          (case filterE keep es of
             Inl err \<Rightarrow> Inl err
           | Inr kept \<Rightarrow>
               (case mapE (lookupFont E fontMap) kept of
                  Inl err \<Rightarrow> Inl err
                | Inr files \<Rightarrow> Inr (uniq files)))
      | _ \<Rightarrow> Inl TypeError)"

definition searchTemplateDependencyFont ::
  "env \<Rightarrow> (string \<rightharpoonup> jsval) \<Rightarrow> jsval \<Rightarrow> error + jsval list" where
  "searchTemplateDependencyFont E fontMap template =
     (case getProp template ''elements'' of
        Inl err \<Rightarrow> Inl err
      | Inr elements \<Rightarrow> searchFonts E isTextWithFont fontMap elements)"

definition searchOldTemplateDependencyFont ::
  "env \<Rightarrow> (string \<rightharpoonup> jsval) \<Rightarrow> jsval \<Rightarrow> error + jsval list" where
  "searchOldTemplateDependencyFont E fontMap template =
     (case getProp template ''text'' of
        Inl err \<Rightarrow> Inl err
      | Inr texts \<Rightarrow> searchFonts E hasFont fontMap texts)"

text \<open>\<open>if (dependentFonts.length) res.dependentFonts = dependentFonts\<close>\<close>

definition attachFonts :: "jsval list \<Rightarrow> jsval list option" where
  "attachFonts deps = (if length deps \<noteq> 0 then Some deps else None)"

text \<open>
  \<open>require\<close> of a \<open>.json\<close> file and \<open>JSON.parse(fs.readFileSync(file, 'utf-8'))\<close>:
  the file is read, then parsed. A definition file that is a directory is not loaded.
\<close>

definition require :: "env \<Rightarrow> node option \<Rightarrow> error + jsval" where
  "require E n =
     (case readFile n of
        Inl e \<Rightarrow> Inl e
      | Inr bytes \<Rightarrow> (case requireJson E bytes of None \<Rightarrow> Inl SyntaxError | Some v \<Rightarrow> Inr v))"

definition parseFile :: "env \<Rightarrow> node option \<Rightarrow> error + jsval" where
  "parseFile E n =
     (case readFile n of
        Inl e \<Rightarrow> Inl e
      | Inr bytes \<Rightarrow> (case jsonParse E bytes of None \<Rightarrow> Inl SyntaxError | Some v \<Rightarrow> Inr v))"

text \<open>
  The callback \<open>async id => ...\<close> runs in two parts. The first part runs at once, up
  to the call of \<open>filesMd5\<close>, and ends in a \<open>step\<close>: the promise is settled already,
  or it waits for the hash of a directory, to end with an entry under a key, with a
  type and metadata, and with the dependency search that follows the hash.
\<close>

type_synonym template = "(string \<times> templateEntry) option"

datatype fontSearch = NoSearch | SearchElements jsval | SearchTexts jsval

datatype step =
    Settled "template promise"
  | Hash string string jsval "node option" fontSearch nat

text \<open>\<open>filesMd5(dirPath)\<close> for what is found at \<open>dirPath\<close>.\<close>

definition filesMd5At :: "env \<Rightarrow> node option \<Rightarrow> error + dirhash" where
  "filesMd5At E n = (case n of None \<Rightarrow> Inl IOError | Some d \<Rightarrow> filesMd5 E d)"

definition dependencies ::
  "env \<Rightarrow> (string \<rightharpoonup> jsval) \<Rightarrow> fontSearch \<Rightarrow> error + jsval list option" where
  "dependencies E fontMap wanted =
     (case wanted of
        NoSearch \<Rightarrow> Inr None
      | SearchElements template \<Rightarrow>
          (case searchTemplateDependencyFont E fontMap template of
             Inl e \<Rightarrow> Inl e
           | Inr deps \<Rightarrow> Inr (attachFonts deps))
      | SearchTexts template \<Rightarrow>
          (case searchOldTemplateDependencyFont E fontMap template of
             Inl e \<Rightarrow> Inl e
           | Inr deps \<Rightarrow> Inr (attachFonts deps)))"

text \<open>
  The second part of the callback, after the hash has settled; \<open>fontMap\<close> is
  \<open>fontNameMap\<close> as it is by then.
\<close>

fun finish :: "env \<Rightarrow> (string \<rightharpoonup> jsval) \<Rightarrow> step \<Rightarrow> template promise" where
  "finish E fontMap (Settled p) = p"
| "finish E fontMap (Hash key kind m dir wanted t) =
     (case filesMd5At E dir of
        Inl e \<Rightarrow> RejectedAt t e
      | Inr h \<Rightarrow>
          (case dependencies E fontMap wanted of
             Inl e \<Rightarrow> RejectedAt t e
           | Inr deps \<Rightarrow>
               Fulfilled (Some (key,
                 \<lparr>resource = resource h, size' = size' h, type' = kind,
                  metadata = m, dependentFonts = deps\<rparr>))))"

text \<open>
  The script branch. The script starts with \<open>metadata\<close> undefined and \<open>id\<close> the name
  of the entry; \<open>path.join\<close> throws a \<open>TypeError\<close> for an \<open>id\<close> that is no string.
\<close>

definition scriptStep ::
  "env \<Rightarrow> world \<Rightarrow> (string \<times> node) list \<Rightarrow> string \<Rightarrow> (string \<times> node) list \<Rightarrow> scope
     \<Rightarrow> scope \<times> step" where
  "scriptStep E W entries ident files sc =
     (case readFile (map_of files SCRIPT_NAME) of
        Inl e \<Rightarrow> (sc, Settled (RejectedNow e))
      | Inr scriptContent \<Rightarrow>
          (case evalScript E scriptContent (sc\<lparr>varMetadata := JUndefined, varId := JStr ident\<rparr>) of
             Throws sc' \<Rightarrow> (sc', Settled (RejectedNow ScriptError))
           | Returns calls sc' \<Rightarrow>
               if \<not> truthy (varMetadata sc') then (sc', Settled (Fulfilled None))
               else (case varId sc' of
                       JStr name \<Rightarrow>
                         (sc', Hash name ''script'' (varMetadata sc')
                                 (templateAt W entries name) NoSearch (hashTime E ident))
                     | _ \<Rightarrow> (sc', Settled (RejectedNow TypeError)))))"

definition currentStep :: "env \<Rightarrow> string \<Rightarrow> (string \<times> node) list \<Rightarrow> step" where
  "currentStep E ident files =
     (case require E (map_of files TEMPLATE_NAME) of
        Inl e \<Rightarrow> Settled (RejectedNow e)
      | Inr template \<Rightarrow>
          (case getProp template ''metadata'' of
             Inl e \<Rightarrow> Settled (RejectedNow e)
           | Inr m \<Rightarrow>
               Hash ident ''template'' m (Some (Dir files)) (SearchElements template)
                 (hashTime E ident)))"

definition legacyMetadata :: "jsval \<Rightarrow> error + jsval" where
  "legacyMetadata template =
     (case getProp template ''alias'' of
        Inl e \<Rightarrow> Inl e
      | Inr a \<Rightarrow>
          (case getProp template ''inRandomList'' of
             Inl e \<Rightarrow> Inl e
           | Inr r \<Rightarrow>
               (case getProp template ''hidden'' of
                  Inl e \<Rightarrow> Inl e
                | Inr h \<Rightarrow>
                    Inr (JObj [(''apiVersion'', JNum 0), (''alias'', a),
                               (''inRandomList'', r), (''hidden'', h)]))))"

definition legacyStep :: "env \<Rightarrow> string \<Rightarrow> (string \<times> node) list \<Rightarrow> step" where
  "legacyStep E ident files =
     (case require E (map_of files OLD_TEMPLATE_NAME) of
        Inl e \<Rightarrow> Settled (RejectedNow e)
      | Inr template \<Rightarrow>
          (case legacyMetadata template of
             Inl e \<Rightarrow> Settled (RejectedNow e)
           | Inr m \<Rightarrow>
               Hash ident ''template'' m (Some (Dir files)) (SearchTexts template)
                 (hashTime E ident)))"

text \<open>
  The first part of the callback, for one entry: \<open>Fulfilled None\<close> is the \<open>null\<close> or
  \<open>undefined\<close> that \<open>filter(Boolean)\<close> drops.
\<close>

fun templateStep ::
  "env \<Rightarrow> world \<Rightarrow> (string \<times> node) list \<Rightarrow> string \<times> node \<Rightarrow> scope \<Rightarrow> scope \<times> step" where
  "templateStep E W entries (ident, File sz c) sc = (sc, Settled (Fulfilled None))"
| "templateStep E W entries (ident, Dir files) sc =
     (if existsIn files SCRIPT_NAME then scriptStep E W entries ident files sc
      else if existsIn files TEMPLATE_NAME then (sc, currentStep E ident files)
      else if existsIn files OLD_TEMPLATE_NAME then (sc, legacyStep E ident files)
      else (sc, Settled (Fulfilled None)))"

text \<open>
  What the callback ends with for an entry that has no \<open>main.js\<close>, as a result or
  an error; \<open>fontMap\<close> is \<open>fontNameMap\<close> as it is when the hash has settled.
\<close>

fun processTemplate ::
  "env \<Rightarrow> (string \<rightharpoonup> jsval) \<Rightarrow> string \<times> node \<Rightarrow> error + template" where
  "processTemplate E fontMap (ident, File sz c) = Inr None"
| "processTemplate E fontMap (ident, Dir files) =
     (if existsIn files TEMPLATE_NAME
      then settled (finish E fontMap (currentStep E ident files))
      else if existsIn files OLD_TEMPLATE_NAME
      then settled (finish E fontMap (legacyStep E ident files))
      else Inr None)"

text \<open>
  What the promise of the callback settles to, for an entry and the scope in which
  its first part starts; \<open>fontMap\<close> is \<open>fontNameMap\<close> as it is when the hash has
  settled.
\<close>

definition callbackEnd ::
  "env \<Rightarrow> world \<Rightarrow> (string \<times> node) list \<Rightarrow> (string \<rightharpoonup> jsval) \<Rightarrow> string \<times> node \<Rightarrow> scope
     \<Rightarrow> error + template" where
  "callbackEnd E W entries fontMap entry sc =
     settled (finish E fontMap (snd (templateStep E W entries entry sc)))"

text \<open>
  \<open>map\<close> calls the callback for the entries in order, and each call runs its first
  part before the next call starts: the scripts run one after the other, each in the
  scope that the one before has left.
\<close>

fun templateSteps ::
  "env \<Rightarrow> world \<Rightarrow> (string \<times> node) list \<Rightarrow> (string \<times> node) list \<Rightarrow> scope
     \<Rightarrow> scope \<times> step list" where
  "templateSteps E W entries [] sc = (sc, [])"
| "templateSteps E W entries (entry # rest) sc =
     (case templateStep E W entries entry sc of
        (sc', st) \<Rightarrow>
          (case templateSteps E W entries rest sc' of
             (sc'', sts) \<Rightarrow> (sc'', st # sts)))"

text \<open>
  The callback \<open>async font => ...\<close> of the font batch: \<open>readFileSync\<close> runs at once,
  \<open>getFontInfo\<close> and \<open>md5\<close> are awaited. It ends with the file name, the names of
  the font and the entry \<open>{md5, size, name}\<close>.
\<close>

definition fontCallback :: "env \<Rightarrow> string \<times> node \<Rightarrow> (string \<times> string list \<times> jsval) promise" where
  "fontCallback E entry =
     (case entry of (fontFile, n) \<Rightarrow>
        (case readFile (Some n) of
           Inl e \<Rightarrow> RejectedNow e
         | Inr fontContent \<Rightarrow>
             (case getFontInfo E fontContent of
                Inl e \<Rightarrow> RejectedAt (fontInfoTime E fontFile) e
              | Inr names \<Rightarrow>
                  (case md5 E (Some n) of
                     Inl e \<Rightarrow> RejectedAt (fontDoneTime E fontFile) e
                   | Inr h \<Rightarrow>
                       Fulfilled (fontFile, names,
                         JObj [(''md5'', JStr h),
                               (''size'', JNum (int (length fontContent))),
                               (''name'', JArr (map JStr names))])))))"

text \<open>\<open>info.name.forEach(n => fontNameMap.set(n, font))\<close>\<close>

definition indexNames ::
  "string \<Rightarrow> string list \<Rightarrow> (string \<rightharpoonup> jsval) \<Rightarrow> (string \<rightharpoonup> jsval)" where
  "indexNames fontFile names fontMap = fold (\<lambda>n m. m(n \<mapsto> JStr fontFile)) names fontMap"

text \<open>
  The state after the font batch: each font sets its names when its \<open>getFontInfo\<close>
  has settled and its entry when its callback ends, so a name that two fonts share
  ends with the file of the font whose \<open>getFontInfo\<close> settles last (the later one
  in the listing where the times are equal).
\<close>

definition afterFonts :: "env \<Rightarrow> config \<Rightarrow> (string \<times> string list \<times> jsval) list \<Rightarrow> scope" where
  "afterFonts E cfg infos =
     \<lparr>varMetadata = JUndefined, varId = JUndefined,
      fontNameMap =
        fold (\<lambda>(fontFile, names, entry). indexNames fontFile names)
          (sort_key (\<lambda>(fontFile, names, entry). fontInfoTime E fontFile) infos) Map.empty,
      resultFontObj =
        fold (\<lambda>(fontFile, names, entry). objSet fontFile entry)
          (sort_key (\<lambda>(fontFile, names, entry). fontDoneTime E fontFile) infos) [],
      config = configObject cfg\<rparr>"

text \<open>The contents of the three output files, before \<open>JSON.stringify\<close>.\<close>

record oldIndex =
  version :: int
  dataPath :: string
  dataList :: "string list"
  fontList :: "string list"

record oldIndexMap =
  lengthMap :: "(string \<times> nat) list"
  aliasMap :: "(string \<times> jsval) list"
  typeMap :: "(string \<times> jsval) list"

datatype content =
    IndexJson oldIndex
  | IndexMapJson oldIndexMap
  | PetpetIndexJson manifest

text \<open>\<open>templatesList.filter(Boolean)\<close> and the loop \<open>map[template.id] = template\<close>.\<close>

definition collect :: "template list \<Rightarrow> (string \<times> templateEntry) list" where
  "collect templatesList =
     fold (\<lambda>(ident, template). objSet ident template) (List.map_filter (\<lambda>t. t) templatesList) []"

text \<open>The promises of the font batch, when the fonts directory can be listed.\<close>

definition fontBatch ::
  "env \<Rightarrow> world \<Rightarrow> error + (string \<times> string list \<times> jsval) promise list" where
  "fontBatch E W =
     (case readdir (fontsNode W) of
        Inl e \<Rightarrow> Inl e
      | Inr fontFiles \<Rightarrow>
          Inr (map (fontCallback E) (filter (\<lambda>(fontFile, n). isFontFile fontFile) fontFiles)))"

text \<open>
  The promises of the template batch, with the scope that the first parts of the
  callbacks have left: there is none when the font batch has failed or the templates
  directory cannot be listed.
\<close>

definition templateBatch ::
  "env \<Rightarrow> config \<Rightarrow> world \<Rightarrow> error + scope \<times> template promise list" where
  "templateBatch E cfg W =
     (case fontBatch E W of
        Inl e \<Rightarrow> Inl e
      | Inr fontPromises \<Rightarrow>
          (case promiseAll fontPromises of
             Inl e \<Rightarrow> Inl e
           | Inr infos \<Rightarrow>
               (case readdir (templatesNode W) of
                  Inl e \<Rightarrow> Inl e
                | Inr entries \<Rightarrow>
                    (case templateSteps E W entries entries (afterFonts E cfg infos) of
                       (sc, steps) \<Rightarrow> Inr (sc, map (finish E (fontNameMap sc)) steps)))))"

text \<open>
  The two \<open>then\<close> callbacks: \<open>config.path\<close> and \<open>config.fontsPath\<close> are read from
  \<open>config\<close> as it is by then, the output path was fixed at the start.
\<close>

definition buildTemplateIndex :: "env \<Rightarrow> config \<Rightarrow> world \<Rightarrow> error + (string \<times> content) list" where
  "buildTemplateIndex E cfg W =
     (case templateBatch E cfg W of
        Inl e \<Rightarrow> Inl e
      | Inr (sc, templatePromises) \<Rightarrow>
          (case promiseAll templatePromises of
             Inl e \<Rightarrow> Inl e
           | Inr templatesList \<Rightarrow>
               (case getProp (config sc) ''path'' of
                  Inl e \<Rightarrow> Inl e
                | Inr tp \<Rightarrow>
                    (case getProp (config sc) ''fontsPath'' of
                       Inl e \<Rightarrow> Inl e
                     | Inr fp \<Rightarrow>
                         Inr [(pathJoin E (pathJoin E (rootDir W) (basePath cfg))
                                 ''petpet-index.json'',
                               PetpetIndexJson
                                 \<lparr>templatesPath = tp,
                                  templates = collect templatesList,
                                  manifestFontsPath = fp,
                                  fonts = resultFontObj sc\<rparr>)]))))"

subsection \<open>old-template-builder\<close>

text \<open>\<open>a ?? b\<close>\<close>

definition orElse :: "jsval \<Rightarrow> jsval \<Rightarrow> jsval" where
  "orElse a b = (if a = JUndefined \<or> a = JNull then b else a)"

text \<open>
  The three maps that the filter callback fills, with the list of the names it has
  kept so far.
\<close>

record oldState =
  lengths :: "(string \<times> nat) list"
  aliases :: "(string \<times> jsval) list"
  types :: "(string \<times> jsval) list"
  kept :: "string list"

text \<open>
  The callback of \<open>filter\<close>. \<open>data.json\<close> exists below an entry only when the
  entry is a directory that lists it.
\<close>

fun oldTemplate :: "env \<Rightarrow> string \<times> node \<Rightarrow> oldState \<Rightarrow> error + oldState" where
  "oldTemplate E (template, File sz c) st = Inr st"
| "oldTemplate E (template, Dir files) st =
     (if \<not> existsIn files ''data.json'' then Inr st
      else
        let n = length (filter isFrameFile (map fst files)) in
        (case parseFile E (map_of files ''data.json'') of
           Inl e \<Rightarrow> Inl e
         | Inr templateData \<Rightarrow>
             (case getProp templateData ''alias'' of
                Inl e \<Rightarrow> Inl e
              | Inr a \<Rightarrow>
                  (case getProp templateData ''type'' of
                     Inl e \<Rightarrow> Inl e
                   | Inr t \<Rightarrow>
                       Inr \<lparr>lengths = objSet template n (lengths st),
                            aliases = objSet template (orElse a (JArr [])) (aliases st),
                            types = objSet template (orElse t (JStr ''Unknown'')) (types st),
                            kept = kept st @ [template]\<rparr>))))"

fun oldTemplates :: "env \<Rightarrow> (string \<times> node) list \<Rightarrow> oldState \<Rightarrow> error + oldState" where
  "oldTemplates E [] st = Inr st"
| "oldTemplates E (entry # rest) st =
     (case oldTemplate E entry st of Inl e \<Rightarrow> Inl e | Inr st' \<Rightarrow> oldTemplates E rest st')"

definition buildOldTemplateIndex ::
  "env \<Rightarrow> config \<Rightarrow> world \<Rightarrow> error + (string \<times> content) list" where
  "buildOldTemplateIndex E cfg W =
     (case readdir (templatesNode W) of
        Inl e \<Rightarrow> Inl e
      | Inr entries \<Rightarrow>
          (case oldTemplates E entries \<lparr>lengths = [], aliases = [], types = [], kept = []\<rparr> of
             Inl e \<Rightarrow> Inl e
           | Inr st \<Rightarrow>
               (case readdir (fontsNode W) of
                  Inl e \<Rightarrow> Inl e
                | Inr fontFiles \<Rightarrow>
                    Inr (AList.update
                          (pathJoin E (pathJoin E (rootDir W) (basePath cfg)) ''index.map.json'')
                          (IndexMapJson
                             \<lparr>lengthMap = lengths st, aliasMap = aliases st, typeMap = types st\<rparr>)
                          [(pathJoin E (pathJoin E (rootDir W) (basePath cfg)) ''index.json'',
                            IndexJson
                              \<lparr>version = oldTargetVersion cfg, dataPath = path cfg,
                               dataList = kept st,
                               fontList = filter isFontFile (map fst fontFiles)\<rparr>)]))))"

subsection \<open>main\<close>

text \<open>
  The loop \<open>for (const path in results) fs.writeFileSync(path, results[path])\<close>:
  \<open>writable\<close> tells where a write succeeds, and the list is what has been written.
\<close>

fun writeAll ::
  "(string \<Rightarrow> bool) \<Rightarrow> (string \<times> content) list \<Rightarrow> (string \<times> content) list
     \<Rightarrow> (error + unit) \<times> (string \<times> content) list" where
  "writeAll writable [] written = (Inr (), written)"
| "writeAll writable ((p, c) # rest) written =
     (if writable p then writeAll writable rest (written @ [(p, c)])
      else (Inl IOError, written))"

text \<open>
  The object \<open>{...buildOldTemplateIndex(config), ...await buildTemplateIndex(config)}\<close>:
  the legacy builder runs first, and a spread defines own properties.
\<close>

definition main ::
  "env \<Rightarrow> config \<Rightarrow> world \<Rightarrow> (string \<Rightarrow> bool) \<Rightarrow> (error + unit) \<times> (string \<times> content) list" where
  "main E cfg W writable =
     (case buildOldTemplateIndex E cfg W of
        Inl e \<Rightarrow> (Inl e, [])
      | Inr old \<Rightarrow>
          (case buildTemplateIndex E cfg W of
             Inl e \<Rightarrow> (Inl e, [])
           | Inr new \<Rightarrow>
               writeAll writable (fold (\<lambda>(p, c). AList.update p c) new old) []))"

subsection \<open>Sample collaborators and inputs\<close>

text \<open>
  Stand-ins for the platform and the libraries, on a handful of file contents: the
  digest reverses the bytes, lower-casing is that of the ASCII letters, \<open>path.join\<close>
  puts a slash between its arguments, every operation settles at time 0, and the font
  reader, the JSON parsers and the script evaluation know the contents listed here.
\<close>

definition asciiLowerChar :: "char \<Rightarrow> char" where
  "asciiLowerChar c =
     (let n = (of_char c :: nat) in if 65 \<le> n \<and> n \<le> 90 then char_of (n + 32) else c)"

definition asciiLower :: "string \<Rightarrow> string" where
  "asciiLower s = map asciiLowerChar s"

definition arial :: font where
  "arial = \<lparr>familyName = Some ''Arial'', fullName = Some ''Arial'',
            postscriptName = Some ''ArialMT'', subfamilyName = Some ''Regular''\<rparr>"

definition nameless :: font where
  "nameless = \<lparr>familyName = Some ''Arial'', fullName = Some ''Arial'',
               postscriptName = Some ''ArialMT'', subfamilyName = None\<rparr>"

definition textElement :: "string \<Rightarrow> jsval" where
  "textElement f = JObj [(''type'', JStr ''text''), (''font'', JStr f)]"

definition textTemplate :: "string \<Rightarrow> jsval" where
  "textTemplate f =
     JObj [(''metadata'', JObj [(''x'', JNum 1)]), (''elements'', JArr [textElement f])]"

text \<open>A template whose elements are text elements with the given fonts.\<close>

definition textElements :: "string list \<Rightarrow> jsval" where
  "textElements fs = JObj [(''elements'', JArr (map textElement fs))]"

definition funData :: jsval where
  "funData = JObj [(''alias'', JArr [JStr ''f'']), (''type'', JStr ''Fun'')]"

definition sampleJson :: "string \<Rightarrow> jsval option" where
  "sampleJson bytes =
     (if bytes = ''template with Arial'' then Some (textTemplate ''Arial'')
      else if bytes = ''template with Nope'' then Some (textTemplate ''Nope'')
      else if bytes = ''alias f, type Fun'' then Some funData
      else None)"

text \<open>
  Five scripts. The first three reach \<open>metadata\<close> through \<open>register\<close> only, or not
  at all; the last two assign it themselves.
\<close>

definition sampleScript :: "string \<Rightarrow> scope \<Rightarrow> script_run" where
  "sampleScript src sc =
     (if src = ''register(() => ({v: 1}))''
      then Returns [JObj [(''v'', JNum 1)]] (sc\<lparr>varMetadata := JObj [(''v'', JNum 1)]\<rparr>)
      else if src = ''register(() => 0)''
      then Returns [JNum 0] (sc\<lparr>varMetadata := JNum 0\<rparr>)
      else if src = ''var x = 1''
      then Returns [] sc
      else if src = ''metadata = {v: 1}''
      then Returns [] (sc\<lparr>varMetadata := JObj [(''v'', JNum 1)]\<rparr>)
      else if src = ''register(() => 0); metadata = {v: 1}''
      then Returns [JNum 0] (sc\<lparr>varMetadata := JObj [(''v'', JNum 1)]\<rparr>)
      else Throws sc)"

definition sampleEnv :: env where
  "sampleEnv =
     \<lparr>digest = rev,
      fontkitOpen = (\<lambda>bytes. if bytes = ''arial'' then Some arial
                              else if bytes = ''nameless'' then Some nameless else None),
      requireJson = sampleJson,
      jsonParse = sampleJson,
      evalScript = sampleScript,
      toLowerCase = asciiLower,
      pathJoin = (\<lambda>a b. a @ ''/'' @ b),
      fontInfoTime = (\<lambda>fontFile. 0),
      fontDoneTime = (\<lambda>fontFile. 0),
      hashTime = (\<lambda>ident. 0)\<rparr>"

definition sampleConfig :: config where
  "sampleConfig =
     \<lparr>basePath = ''repo'', path = ''templates'', fontsPath = ''fonts'',
      oldTargetVersion = 5, targetVersion = ''6''\<rparr>"



definition legacyDir :: "(string \<times> node) list" where
  "legacyDir =
     [(''data.json'', File 17 (Some ''alias f, type Fun'')),
      (''1.png'', File 3 (Some ''abc'')),
      (''2.png'', File 3 (Some ''abd''))]"

definition assignDir :: "(string \<times> node) list" where
  "assignDir = [(''main.js'', File 17 (Some ''metadata = {v: 1}''))]"

definition zeroAssignDir :: "(string \<times> node) list" where
  "zeroAssignDir = [(''main.js'', File 36 (Some ''register(() => 0); metadata = {v: 1}''))]"


definition sampleFonts :: "(string \<times> node) list" where
  "sampleFonts = [(''a.ttf'', File 5 (Some ''arial''))]"

definition sampleWorld :: "(string \<times> node) list \<Rightarrow> world" where
  "sampleWorld entries =
     \<lparr>rootDir = ''/work'', templatesNode = Some (Dir entries),
      fontsNode = Some (Dir sampleFonts), elsewhere = (\<lambda>s. None)\<rparr>"




subsection \<open>Specification predicates\<close>

text \<open>What a font reference resolves to: the value under the lower-cased name, or \<open>undefined\<close>.\<close>

definition resolve :: "env \<Rightarrow> (string \<rightharpoonup> jsval) \<Rightarrow> string \<Rightarrow> jsval" where
  "resolve E fontMap f =
     (case fontMap (toLowerCase E f) of None \<Rightarrow> JUndefined | Some file \<Rightarrow> file)"

section \<open>Properties\<close>

subsection \<open>Helper lemmas\<close>

lemma set_uniq: "set (uniq xs) = set xs"
  by (induction xs rule: uniq.induct) auto

lemma distinct_uniq: "distinct (uniq xs)"
  by (induction xs rule: uniq.induct) (auto simp: set_uniq)

lemma lowerAll_eq:
  "lowerAll E ns =
     (if None \<in> set ns then Inl TypeError else Inr (map (\<lambda>n. toLowerCase E (the n)) ns))"
  by (induction ns rule: lowerAll.induct) auto

lemma lower_samples:
  "asciiLower ''Arial'' = ''arial''"
  "asciiLower ''ArialMT'' = ''arialmt''"
  "asciiLower ''Regular'' = ''regular''"
  "asciiLower ''ARIAL'' = ''arial''"
  "asciiLower ''arial'' = ''arial''"
  by code_simp+

subsection \<open>The directory hasher\<close>

text \<open>
  C1. The claim: for every directory tree, \<open>filesMd5\<close> returns a map with exactly one
  entry per regular file under the root, keyed by the relative path, and a size that is
  the sum of the sizes of all regular files.

  It fails for a regular file named \<open>__proto__\<close>: \<open>result.resource\<close> is a plain
  object, the assignment \<open>result.resource['__proto__'] = hash\<close> stores nothing, and
  the file's size is still added. Here the directory holds that one file, of two bytes:
  the map comes back empty and the size is 2.
\<close>

theorem filesMd5_drops_proto:
  "filesMd5 E (Dir [(''__proto__'', File 2 (Some ''xy''))]) = Inr \<lparr>resource = [], size' = 2\<rparr>"
  by (simp add: md5_def readFile_def objSet_def PROTO_def)

subsection \<open>The font files\<close>

text \<open>
  C4. The claim: a name in the fonts directory is selected if and only if its final
  extension is one of \<open>.woff\<close>, \<open>.eot\<close>, \<open>.woff2\<close>, \<open>.ttf\<close>, so that \<open>a.ttf.bak\<close>
  and \<open>a.woffX\<close> are not selected.

  The pattern has no anchor at its end, and \<open>match\<close> looks for it anywhere in the name:
  both names are selected, by either builder.
\<close>

theorem font_filter_unanchored:
  "filter isFontFile [''a.ttf'', ''a.ttf.bak'', ''a.woffX'', ''a.TTF''] =
     [''a.ttf'', ''a.ttf.bak'', ''a.woffX'']"
  by code_simp

text \<open>
  C5. The claim: when the font reader reports some of the four names as absent,
  \<open>getFontInfo\<close> succeeds and returns the lower-cased present names.

  The code calls \<open>toLowerCase\<close> on each of the four names, so an absent one is a
  \<open>TypeError\<close>. Amended: for a font that fontkit opens, \<open>getFontInfo\<close> returns what
  \<open>toLowerCase\<close> makes of the four names, each result once, in the order family,
  full, postscript, subfamily, when all four are present, and fails with a
  \<open>TypeError\<close> when one is absent.
\<close>

theorem getFontInfo_needs_all_names:
  "fontkitOpen E bytes = Some f \<Longrightarrow>
   getFontInfo E bytes =
     (if None \<in> {familyName f, fullName f, postscriptName f, subfamilyName f}
      then Inl TypeError
      else Inr (uniq (map (\<lambda>n. toLowerCase E (the n))
                  [familyName f, fullName f, postscriptName f, subfamilyName f])))"
  by (simp add: getFontInfo_def fontNames_def lowerAll_eq)

theorem getFontInfo_needs_all_names_witness:
  "fontkitOpen sampleEnv ''arial'' = Some arial
   \<and> getFontInfo sampleEnv ''arial'' = Inr [''arial'', ''arialmt'', ''regular'']"
proof -
  have opened: "fontkitOpen sampleEnv ''arial'' = Some arial"
    by (simp add: sampleEnv_def)
  have lower: "map (toLowerCase sampleEnv) [''Arial'', ''ArialMT'', ''Regular''] =
      [''arial'', ''arialmt'', ''regular'']"
    by (simp add: sampleEnv_def lower_samples)
  from getFontInfo_needs_all_names [OF opened] lower opened show ?thesis
    by (simp add: arial_def)
qed

theorem getFontInfo_absent_name_counterexample:
  "fontkitOpen sampleEnv ''nameless'' = Some nameless
   \<and> subfamilyName nameless = None
   \<and> getFontInfo sampleEnv ''nameless'' = Inl TypeError"
  by (simp add: sampleEnv_def nameless_def getFontInfo_def fontNames_def)

subsection \<open>Font dependencies\<close>

text \<open>
  An entry without \<open>main.js\<close>: \<open>processTemplate\<close> is what its callback ends with.
\<close>

lemma processTemplate_callback:
  "\<not> (\<exists>files. node = Dir files \<and> existsIn files SCRIPT_NAME) \<Longrightarrow>
   callbackEnd E W entries fontMap (ident, node) sc = processTemplate E fontMap (ident, node)"
  by (cases node) (auto simp: callbackEnd_def settled_def)

text \<open>
  C3. The claim: \<open>dependentFonts\<close>, when attached, holds only file names of the
  font-name index, and a template whose text elements name only unknown fonts gets no
  \<open>dependentFonts\<close>.

  \<open>fontMap.get\<close> returns \<open>undefined\<close> for an unknown font, the set keeps it, and the
  list \<open>[undefined]\<close> has length 1. Here the index is empty and the one text element
  names the font \<open>Nope\<close>: the entry carries \<open>dependentFonts = [undefined]\<close>.
\<close>

theorem unknown_font_attached:
  "processTemplate sampleEnv Map.empty
     (''foo'', Dir [(''template.json'', File 18 (Some ''template with Nope''))]) =
   Inr (Some (''foo'',
     \<lparr>resource = [(''template.json'', ''epoN htiw etalpmet'')], size' = 18,
      type' = ''template'', metadata = JObj [(''x'', JNum 1)],
      dependentFonts = Some [JUndefined]\<rparr>))"
  by code_simp

lemma isTextWithFont_textElement: "isTextWithFont (textElement f) = Inr (f \<noteq> [])"
  by (simp add: isTextWithFont_def textElement_def)

lemma lookupFont_textElement: "lookupFont E fm (textElement f) = Inr (resolve E fm f)"
  by (simp add: lookupFont_def textElement_def resolve_def)

lemma filterE_textElements:
  "filterE isTextWithFont (map textElement fs) =
     Inr (map textElement (filter (\<lambda>f. f \<noteq> []) fs))"
  by (induction fs) (simp_all add: isTextWithFont_textElement)

lemma mapE_textElements:
  "mapE (lookupFont E fm) (map textElement fs) = Inr (map (resolve E fm) fs)"
  by (induction fs) (simp_all add: lookupFont_textElement)

lemma search_textElements:
  "searchTemplateDependencyFont E fm (textElements fs) =
     Inr (uniq (map (resolve E fm) (filter (\<lambda>f. f \<noteq> []) fs)))"
  by (simp add: searchTemplateDependencyFont_def textElements_def searchFonts_def
      filterE_textElements mapE_textElements)

lemma indexNames_apply:
  "indexNames fontFile names fm k = (if k \<in> set names then Some (JStr fontFile) else fm k)"
  unfolding indexNames_def by (induction names arbitrary: fm) auto

text \<open>
  C8. Font lookup ignores letter case. The names of a font are indexed lower-cased and
  a reference is lower-cased before it is looked up: when \<open>getFontInfo\<close> has given the
  names of a font and \<open>forEach\<close> has set them in the map, two references \<open>a\<close> and
  \<open>b\<close> that \<open>toLowerCase\<close> takes to the same string as one of the four names of the
  font resolve, each alone, to the file of that font; and whatever the map holds, the
  one can replace the other in a list of text elements without changing what the
  dependency search returns.
\<close>

theorem font_lookup_ignores_case:
  assumes "fontkitOpen E bytes = Some f"
    and "getFontInfo E bytes = Inr names"
    and "Some name \<in> {familyName f, fullName f, postscriptName f, subfamilyName f}"
    and "fontMap = indexNames fontFile names fontMap0"
    and "a \<noteq> []"
    and "b \<noteq> []"
    and "toLowerCase E a = toLowerCase E name"
    and "toLowerCase E b = toLowerCase E name"
  shows "searchTemplateDependencyFont E fontMap (textElements [a]) = Inr [JStr fontFile]
    \<and> searchTemplateDependencyFont E fontMap (textElements [b]) = Inr [JStr fontFile]
    \<and> (\<forall>fm xs ys. searchTemplateDependencyFont E fm (textElements (xs @ a # ys)) =
          searchTemplateDependencyFont E fm (textElements (xs @ b # ys)))"
proof -
  from assms(1,2) have "names = uniq (map (\<lambda>n. toLowerCase E (the n))
                  [familyName f, fullName f, postscriptName f, subfamilyName f])"
    by (auto simp: getFontInfo_def fontNames_def lowerAll_eq split: if_splits)
  with assms(3) have "toLowerCase E name \<in> set names"
    by (auto simp: set_uniq) (metis option.sel)+
  with assms(4) have found: "fontMap (toLowerCase E name) = Some (JStr fontFile)"
    by (simp add: indexNames_apply)
  have same: "resolve E fm a = resolve E fm b" for fm
    by (simp add: resolve_def assms(7,8))
  from found assms(5,6,7,8) same show ?thesis
    by (simp add: search_textElements resolve_def)
qed

theorem font_lookup_ignores_case_witness:
  "fontkitOpen sampleEnv ''arial'' = Some arial
   \<and> getFontInfo sampleEnv ''arial'' = Inr [''arial'', ''arialmt'', ''regular'']
   \<and> toLowerCase sampleEnv ''ARIAL'' = toLowerCase sampleEnv ''Arial''
   \<and> toLowerCase sampleEnv ''arial'' = toLowerCase sampleEnv ''Arial''
   \<and> searchTemplateDependencyFont sampleEnv
       (indexNames ''a.ttf'' [''arial'', ''arialmt'', ''regular''] Map.empty)
       (textElements [''ARIAL'']) = Inr [JStr ''a.ttf'']
   \<and> searchTemplateDependencyFont sampleEnv
       (indexNames ''a.ttf'' [''arial'', ''arialmt'', ''regular''] Map.empty)
       (textElements [''arial'']) = Inr [JStr ''a.ttf'']"
proof -
  have opened: "fontkitOpen sampleEnv ''arial'' = Some arial"
    by (simp add: sampleEnv_def)
  have info: "getFontInfo sampleEnv ''arial'' = Inr [''arial'', ''arialmt'', ''regular'']"
    by (simp add: getFontInfo_def fontNames_def sampleEnv_def arial_def lower_samples)
  have name: "Some ''Arial''
      \<in> {familyName arial, fullName arial, postscriptName arial, subfamilyName arial}"
    by (simp add: arial_def)
  have lc: "toLowerCase sampleEnv ''ARIAL'' = toLowerCase sampleEnv ''Arial''"
    "toLowerCase sampleEnv ''arial'' = toLowerCase sampleEnv ''Arial''"
    by (simp_all add: sampleEnv_def lower_samples)
  have nonempty: "''ARIAL'' \<noteq> []" "''arial'' \<noteq> []" by simp_all
  from font_lookup_ignores_case [OF opened info name refl nonempty lc, of "''a.ttf''" Map.empty]
    opened info lc
  show ?thesis by simp
qed

subsection \<open>Classification of the template directories\<close>



lemma scriptStep_end:
  "settled (finish E fm (snd (scriptStep E W entries ident files sc))) =
    (case readFile (map_of files SCRIPT_NAME) of
       Inl e \<Rightarrow> Inl e
     | Inr src \<Rightarrow>
        (case evalScript E src (sc\<lparr>varMetadata := JUndefined, varId := JStr ident\<rparr>) of
           Throws sc' \<Rightarrow> Inl ScriptError
         | Returns calls sc' \<Rightarrow>
             if \<not> truthy (varMetadata sc') then Inr None
             else (case varId sc' of
                     JStr name \<Rightarrow>
                       (case filesMd5At E (templateAt W entries name) of
                          Inl e \<Rightarrow> Inl e
                        | Inr h \<Rightarrow>
                            Inr (Some (name,
                              \<lparr>resource = resource h, size' = size' h, type' = ''script'',
                               metadata = varMetadata sc', dependentFonts = None\<rparr>)))
                   | _ \<Rightarrow> Inl TypeError)))"
  by (simp add: scriptStep_def settled_def dependencies_def
      split: sum.splits script_run.splits jsval.splits)



subsection \<open>Script templates\<close>

lemma script_without_metadata:
  assumes "existsIn files SCRIPT_NAME"
    and "readFile (map_of files SCRIPT_NAME) = Inr src"
    and "evalScript E src (sc\<lparr>varMetadata := JUndefined, varId := JStr ident\<rparr>) = Returns calls sc'"
    and "\<not> truthy (varMetadata sc')"
  shows "callbackEnd E W entries fontMap (ident, Dir files) sc = Inr None"
  using assms by (simp add: callbackEnd_def scriptStep_end)

text \<open>
  C6. The claim: a script template whose script returns without a call of \<open>register\<close>
  gives no entry, and the build goes on.

  The script is run by a direct \<open>eval\<close> in the scope of the callback, where
  \<open>metadata\<close> is declared, so the script can assign the variable itself. Here the one
  template directory holds \<open>main.js\<close> with the content \<open>metadata = {v: 1}\<close>: the
  script returns, \<open>register\<close> is not called, and the manifest lists the directory as
  a script template with the metadata \<open>{v: 1}\<close>.
\<close>

theorem assigned_metadata_listed:
  "existsIn assignDir SCRIPT_NAME
   \<and> readFile (map_of assignDir SCRIPT_NAME) = Inr ''metadata = {v: 1}''
   \<and> (\<forall>sc. \<exists>sc'. evalScript sampleEnv ''metadata = {v: 1}'' sc = Returns [] sc')
   \<and> buildTemplateIndex sampleEnv sampleConfig (sampleWorld [(''sneak'', Dir assignDir)]) =
      Inr [(''/work/repo/petpet-index.json'',
            PetpetIndexJson
              \<lparr>templatesPath = JStr ''templates'',
               templates =
                 [(''sneak'',
                   \<lparr>resource = [(''main.js'', ''}1 :v{ = atadatem'')], size' = 17,
                    type' = ''script'', metadata = JObj [(''v'', JNum 1)],
                    dependentFonts = None\<rparr>)],
               manifestFontsPath = JStr ''fonts'',
               fonts =
                 [(''a.ttf'',
                   JObj [(''md5'', JStr ''laira''), (''size'', JNum 5),
                         (''name'', JArr [JStr ''arial'', JStr ''arialmt'', JStr ''regular''])])]\<rparr>)]"
proof -
  have a: "existsIn assignDir SCRIPT_NAME" by code_simp
  have b: "readFile (map_of assignDir SCRIPT_NAME) = Inr ''metadata = {v: 1}''" by code_simp
  have c: "\<forall>sc. \<exists>sc'. evalScript sampleEnv ''metadata = {v: 1}'' sc = Returns [] sc'"
    by (simp add: sampleEnv_def sampleScript_def)
  have d: "buildTemplateIndex sampleEnv sampleConfig (sampleWorld [(''sneak'', Dir assignDir)]) =
      Inr [(''/work/repo/petpet-index.json'',
            PetpetIndexJson
              \<lparr>templatesPath = JStr ''templates'',
               templates =
                 [(''sneak'',
                   \<lparr>resource = [(''main.js'', ''}1 :v{ = atadatem'')], size' = 17,
                    type' = ''script'', metadata = JObj [(''v'', JNum 1)],
                    dependentFonts = None\<rparr>)],
               manifestFontsPath = JStr ''fonts'',
               fonts =
                 [(''a.ttf'',
                   JObj [(''md5'', JStr ''laira''), (''size'', JNum 5),
                         (''name'', JArr [JStr ''arial'', JStr ''arialmt'', JStr ''regular''])])]\<rparr>)]"
    by code_simp
  from a b c d show ?thesis by blast
qed

text \<open>
  C10. The claim: a script template whose \<open>register\<close> callback returns a falsy value
  is left out as if \<open>register\<close> had not been called.

  What the builder tests is the variable \<open>metadata\<close> after the script, and the script
  can assign it after the call. Here \<open>main.js\<close> is
  \<open>register(() => 0); metadata = {v: 1}\<close>: the callback of the one call of
  \<open>register\<close> returns 0, and the manifest lists the directory with the metadata
  \<open>{v: 1}\<close>.
\<close>

theorem falsy_register_listed:
  "existsIn zeroAssignDir SCRIPT_NAME
   \<and> readFile (map_of zeroAssignDir SCRIPT_NAME) = Inr ''register(() => 0); metadata = {v: 1}''
   \<and> (\<forall>sc. \<exists>sc'. evalScript sampleEnv ''register(() => 0); metadata = {v: 1}'' sc =
                    Returns [JNum 0] sc')
   \<and> \<not> truthy (JNum 0)
   \<and> buildTemplateIndex sampleEnv sampleConfig (sampleWorld [(''sneak'', Dir zeroAssignDir)]) =
      Inr [(''/work/repo/petpet-index.json'',
            PetpetIndexJson
              \<lparr>templatesPath = JStr ''templates'',
               templates =
                 [(''sneak'',
                   \<lparr>resource = [(''main.js'', ''}1 :v{ = atadatem ;)0 >= )((retsiger'')],
                    size' = 36, type' = ''script'', metadata = JObj [(''v'', JNum 1)],
                    dependentFonts = None\<rparr>)],
               manifestFontsPath = JStr ''fonts'',
               fonts =
                 [(''a.ttf'',
                   JObj [(''md5'', JStr ''laira''), (''size'', JNum 5),
                         (''name'', JArr [JStr ''arial'', JStr ''arialmt'', JStr ''regular''])])]\<rparr>)]"
proof -
  have a: "existsIn zeroAssignDir SCRIPT_NAME" by code_simp
  have b: "readFile (map_of zeroAssignDir SCRIPT_NAME) =
      Inr ''register(() => 0); metadata = {v: 1}''" by code_simp
  have c: "\<forall>sc. \<exists>sc'. evalScript sampleEnv ''register(() => 0); metadata = {v: 1}'' sc =
      Returns [JNum 0] sc'"
    by (simp add: sampleEnv_def sampleScript_def)
  have t: "\<not> truthy (JNum 0)" by simp
  have d: "buildTemplateIndex sampleEnv sampleConfig (sampleWorld [(''sneak'', Dir zeroAssignDir)]) =
      Inr [(''/work/repo/petpet-index.json'',
            PetpetIndexJson
              \<lparr>templatesPath = JStr ''templates'',
               templates =
                 [(''sneak'',
                   \<lparr>resource = [(''main.js'', ''}1 :v{ = atadatem ;)0 >= )((retsiger'')],
                    size' = 36, type' = ''script'', metadata = JObj [(''v'', JNum 1)],
                    dependentFonts = None\<rparr>)],
               manifestFontsPath = JStr ''fonts'',
               fonts =
                 [(''a.ttf'',
                   JObj [(''md5'', JStr ''laira''), (''size'', JNum 5),
                         (''name'', JArr [JStr ''arial'', JStr ''arialmt'', JStr ''regular''])])]\<rparr>)]"
    by code_simp
  from a b c t d show ?thesis by blast
qed

subsection \<open>Failures\<close>















subsection \<open>The legacy builder\<close>

lemma frame_names:
  "isFrameFile ''1.png''" "isFrameFile ''2.png''" "\<not> isFrameFile ''data.json''"
  by code_simp+

lemma legacy_frames:
  assumes "distinct (map fst files)"
    and "set (map fst files) = {''data.json'', ''1.png'', ''2.png''}"
  shows "length (filter isFrameFile (map fst files)) = 2"
proof -
  have "{x. isFrameFile x} \<inter> {''data.json'', ''1.png'', ''2.png''} = {''1.png'', ''2.png''}"
    using frame_names by auto
  with assms distinct_length_filter [of "map fst files" isFrameFile] show ?thesis
    by simp
qed

lemma legacy_scenario_named:
  assumes "templatesNode W = Some (Dir [(name, Dir files)])"
    and "fontsNode W = Some (Dir fontFiles)"
    and "distinct (map fst files)"
    and "set (map fst files) = {''data.json'', ''1.png'', ''2.png''}"
    and "readFile (map_of files ''data.json'') = Inr bytes"
    and "jsonParse E bytes = Some funData"
    and "name \<noteq> PROTO"
  shows "buildOldTemplateIndex E cfg W =
     Inr (AList.update (pathJoin E (pathJoin E (rootDir W) (basePath cfg)) ''index.map.json'')
           (IndexMapJson
             \<lparr>lengthMap = [(name, 2)], aliasMap = [(name, JArr [JStr ''f''])],
              typeMap = [(name, JStr ''Fun'')]\<rparr>)
           [(pathJoin E (pathJoin E (rootDir W) (basePath cfg)) ''index.json'',
             IndexJson
               \<lparr>version = oldTargetVersion cfg, dataPath = path cfg, dataList = [name],
                fontList = filter isFontFile (map fst fontFiles)\<rparr>)])"
proof -
  have present: "existsIn files ''data.json''"
    using assms(4) by (auto simp: existsIn_def map_of_eq_None_iff)
  have parsed: "parseFile E (map_of files ''data.json'') = Inr funData"
    by (simp add: parseFile_def assms(5,6))
  have step: "oldTemplate E (name, Dir files) \<lparr>lengths = [], aliases = [], types = [], kept = []\<rparr> =
    Inr \<lparr>lengths = [(name, 2)], aliases = [(name, JArr [JStr ''f''])],
         types = [(name, JStr ''Fun'')], kept = [name]\<rparr>"
    using assms(7) legacy_frames [OF assms(3,4)]
    by (simp add: present parsed funData_def objSet_def orElse_def filter_map)
  then have all: "oldTemplates E [(name, Dir files)]
      \<lparr>lengths = [], aliases = [], types = [], kept = []\<rparr> =
    Inr \<lparr>lengths = [(name, 2)], aliases = [(name, JArr [JStr ''f''])],
         types = [(name, JStr ''Fun'')], kept = [name]\<rparr>"
    by (simp del: oldTemplate.simps)
  show ?thesis
    by (simp add: buildOldTemplateIndex_def readdir_def assms(1,2) all
        del: oldTemplates.simps AList.update.simps)
qed

text \<open>
  C9. The claim: for a templates directory with one subdirectory that holds
  \<open>data.json\<close> with the content \<open>{alias: ["f"], type: "Fun"}\<close> and the two files
  \<open>1.png\<close> and \<open>2.png\<close>, \<open>dataList\<close> holds the name of the subdirectory, and
  in \<open>index.map.json\<close> its length is 2, its alias \<open>["f"]\<close> and its type
  \<open>"Fun"\<close>.

  The three maps are plain objects, and an assignment under the name \<open>__proto__\<close>
  stores no property in them. Here the subdirectory has that name: \<open>dataList\<close> holds
  it, and the three maps are empty. Under every other name the maps are as claimed
  (\<open>legacy_scenario_named\<close>).
\<close>

theorem legacy_scenario_proto:
  "map fst legacyDir = [''data.json'', ''1.png'', ''2.png'']
   \<and> parseFile sampleEnv (map_of legacyDir ''data.json'') =
       Inr (JObj [(''alias'', JArr [JStr ''f'']), (''type'', JStr ''Fun'')])
   \<and> buildOldTemplateIndex sampleEnv sampleConfig (sampleWorld [(''__proto__'', Dir legacyDir)]) =
      Inr [(''/work/repo/index.json'',
            IndexJson
              \<lparr>version = 5, dataPath = ''templates'', dataList = [''__proto__''],
               fontList = [''a.ttf'']\<rparr>),
           (''/work/repo/index.map.json'',
            IndexMapJson \<lparr>lengthMap = [], aliasMap = [], typeMap = []\<rparr>)]"
proof -
  have a: "map fst legacyDir = [''data.json'', ''1.png'', ''2.png'']"
    by (simp add: legacyDir_def)
  have b: "parseFile sampleEnv (map_of legacyDir ''data.json'') =
      Inr (JObj [(''alias'', JArr [JStr ''f'']), (''type'', JStr ''Fun'')])"
    by code_simp
  have c: "buildOldTemplateIndex sampleEnv sampleConfig
      (sampleWorld [(''__proto__'', Dir legacyDir)]) =
      Inr [(''/work/repo/index.json'',
            IndexJson
              \<lparr>version = 5, dataPath = ''templates'', dataList = [''__proto__''],
               fontList = [''a.ttf'']\<rparr>),
           (''/work/repo/index.map.json'',
            IndexMapJson \<lparr>lengthMap = [], aliasMap = [], typeMap = []\<rparr>)]"
    by code_simp
  from a b c show ?thesis by (intro conjI)
qed

end
